theory Spec2Isabelle
  imports Main "HOL-Library.Multiset"
begin

section \<open>The Storage base class of prefect/storage/base.py\<close>

text \<open>
  The file defines one abstract class, \<^verbatim>\<open>Storage\<close>. An instance is modelled by a record
  of its attributes, a concrete subclass by a record of what its class body defines, and
  the state of the interpreter process that the methods read by a record as well.
  Objects that the class only stores or passes on (flows, results, runners, exception
  payloads of collaborators) are values of an arbitrary type \<open>'v\<close>: references, whose
  own state, where they have any, belongs to the process state.
\<close>

subsection \<open>Exceptions\<close>

text \<open>
  \<open>NotImplementedError\<close> and \<open>TypeError\<close> are the two built-in exceptions that the class
  itself can raise; \<open>Raised x\<close> is an exception that a collaborator has raised.
\<close>

datatype 'v error = NotImplementedError | TypeError | Raised 'v

subsection \<open>Process state\<close>

text \<open>
  \<open>config_add_default_labels\<close> is the value of
  \<^verbatim>\<open>prefect.config.flows.defaults.storage.add_default_labels\<close>. \<open>set_order\<close> is the order in
  which the interpreter iterates over a set of strings, given the order in which the
  elements were inserted. \<open>external\<close> is everything else that a collaborator may read or
  change.
\<close>

record 'w world =
  config_add_default_labels :: bool
  set_order :: "string list \<Rightarrow> string list"
  external :: 'w

text \<open>Iterating over a set yields each of its elements once, in some order.\<close>

definition iteration_ok :: "(string list \<Rightarrow> string list) \<Rightarrow> bool" where
  "iteration_ok ord \<longleftrightarrow> (\<forall>s. mset (ord s) = mset s)"

subsection \<open>Python sets of strings\<close>

text \<open>
  A set object is represented by its elements in the order of their first insertion.
  \<open>pyset\<close> is \<^verbatim>\<open>set(xs)\<close>, \<open>pyset_update\<close> is \<^verbatim>\<open>s.update(xs)\<close> and \<open>pylist\<close> is \<^verbatim>\<open>list(s)\<close>.
\<close>

definition pyset_add :: "'a \<Rightarrow> 'a list \<Rightarrow> 'a list" where
  "pyset_add x s = (if x \<in> set s then s else s @ [x])"

definition pyset_update :: "'a list \<Rightarrow> 'a list \<Rightarrow> 'a list" where
  "pyset_update s xs = fold pyset_add xs s"

definition pyset :: "'a list \<Rightarrow> 'a list" where
  "pyset xs = pyset_update [] xs"

definition pylist :: "'w world \<Rightarrow> string list \<Rightarrow> string list" where
  "pylist w s = set_order w s"

subsection \<open>Instances and classes\<close>

text \<open>
  The attributes of an instance. \<open>u_labels\<close> is \<^verbatim>\<open>_labels\<close>. \<open>u_flows\<close> is \<^verbatim>\<open>_flows\<close>, which the base
  class never assigns: \<open>None\<close> means that the instance has no such attribute, \<open>Some d\<close> that
  it holds the dictionary \<open>d\<close>, kept as an association list in insertion order.
\<close>

record 'v storage =
  result :: "'v option"
  secrets :: "string list"
  stored_as_script :: bool
  u_labels :: "string list"
  add_default_labels :: bool
  u_flows :: "(string \<times> 'v) list option"

text \<open>
  What the body of a concrete subclass defines. \<open>cls_name\<close> is \<^verbatim>\<open>type(self).__name__\<close>. Every
  other field is \<open>None\<close> when the subclass does not define the attribute, so that the
  definition of \<^verbatim>\<open>Storage\<close> is the one that is found.
\<close>

record 'v storage_class =
  cls_name :: string
  cls_default_labels :: "string list option"
  cls_name_property :: "('v storage \<Rightarrow> string) option"
  cls_get_env_runner :: "('v storage \<Rightarrow> string \<Rightarrow> 'v error + 'v) option"
  cls_get_flow :: "('v storage \<Rightarrow> string \<Rightarrow> 'v error + 'v) option"
  cls_add_flow :: "('v storage \<Rightarrow> 'v \<Rightarrow> 'v error + string \<times> 'v storage) option"
  cls_contains :: "('v storage \<Rightarrow> 'v \<Rightarrow> bool) option"
  cls_build :: "('v storage \<Rightarrow> 'v error + 'v storage) option"

subsection \<open>Construction\<close>

text \<open>
  \<^verbatim>\<open>x or []\<close> for an optional list \<open>x\<close>: \<^verbatim>\<open>None\<close> and the empty list are false.
\<close>

fun py_or_empty :: "'a list option \<Rightarrow> 'a list" where
  "py_or_empty None = []"
| "py_or_empty (Some []) = []"
| "py_or_empty (Some (x # xs)) = x # xs"

text \<open>
  \<^verbatim>\<open>Storage.__init__\<close>. An argument that is \<^verbatim>\<open>None\<close> in the call is \<open>None\<close> here.
\<close>

definition init ::
  "'w world \<Rightarrow> 'v option \<Rightarrow> string list option \<Rightarrow> string list option \<Rightarrow> bool option \<Rightarrow> bool
    \<Rightarrow> 'v storage" where
  "init w result_arg secrets_arg labels_arg add_default_labels_arg stored_as_script_arg =
     \<lparr> result = result_arg,
       secrets = py_or_empty secrets_arg,
       stored_as_script = stored_as_script_arg,
       u_labels = py_or_empty labels_arg,
       add_default_labels =
         (case add_default_labels_arg of
            None \<Rightarrow> config_add_default_labels w
          | Some b \<Rightarrow> b),
       u_flows = None \<rparr>"

text \<open>
  The names that \<^verbatim>\<open>ABCMeta\<close> records as still abstract in a subclass: those of the three
  methods decorated with \<^verbatim>\<open>abstractmethod\<close> that the subclass does not define.
\<close>

definition abstractmethods :: "'v storage_class \<Rightarrow> string list" where
  "abstractmethods c =
     (if cls_add_flow c = None then [''add_flow''] else []) @
     (if cls_contains c = None then [''__contains__''] else []) @
     (if cls_build c = None then [''build''] else [])"

text \<open>
  Calling the class: creating the object raises \<^verbatim>\<open>TypeError\<close> while abstract methods
  remain, before \<^verbatim>\<open>__init__\<close> runs.
\<close>

definition construct ::
  "'v storage_class \<Rightarrow> 'w world \<Rightarrow> 'v option \<Rightarrow> string list option \<Rightarrow> string list option
    \<Rightarrow> bool option \<Rightarrow> bool \<Rightarrow> 'v error + 'v storage" where
  "construct c w result_arg secrets_arg labels_arg add_default_labels_arg stored_as_script_arg =
     (if abstractmethods c \<noteq> [] then Inl TypeError
      else Inr (init w result_arg secrets_arg labels_arg add_default_labels_arg
                  stored_as_script_arg))"

subsection \<open>Labels\<close>

text \<open>The property \<^verbatim>\<open>default_labels\<close>: the base class returns the empty list.\<close>

definition default_labels :: "'v storage_class \<Rightarrow> 'v storage \<Rightarrow> string list" where
  "default_labels c self = (case cls_default_labels c of None \<Rightarrow> [] | Some d \<Rightarrow> d)"

text \<open>The property \<^verbatim>\<open>labels\<close>.\<close>

definition labels :: "'w world \<Rightarrow> 'v storage_class \<Rightarrow> 'v storage \<Rightarrow> string list" where
  "labels w c self =
     (if \<not> add_default_labels self then u_labels self
      else
        let all_labels = pyset (u_labels self);
            all_labels = pyset_update all_labels (default_labels c self)
        in pylist w all_labels)"

subsection \<open>Name and optional operations\<close>

text \<open>The identifier of the base class itself.\<close>

definition base_name :: string where
  "base_name = ''Storage''"

text \<open>The property \<^verbatim>\<open>name\<close>, which a subclass can override.\<close>

definition name :: "'v storage_class \<Rightarrow> 'v storage \<Rightarrow> string" where
  "name c self = (case cls_name_property c of None \<Rightarrow> cls_name c | Some f \<Rightarrow> f self)"

text \<open>
  \<^verbatim>\<open>get_env_runner\<close> and \<^verbatim>\<open>get_flow\<close>: the body of the base class raises
  \<^verbatim>\<open>NotImplementedError\<close>.
\<close>

definition get_env_runner :: "'v storage_class \<Rightarrow> 'v storage \<Rightarrow> string \<Rightarrow> 'v error + 'v" where
  "get_env_runner c self flow_location =
     (case cls_get_env_runner c of
        None \<Rightarrow> Inl NotImplementedError
      | Some f \<Rightarrow> f self flow_location)"

definition get_flow :: "'v storage_class \<Rightarrow> 'v storage \<Rightarrow> string \<Rightarrow> 'v error + 'v" where
  "get_flow c self flow_location =
     (case cls_get_flow c of
        None \<Rightarrow> Inl NotImplementedError
      | Some f \<Rightarrow> f self flow_location)"

subsection \<open>Serialization\<close>

text \<open>The values of a serialized mapping.\<close>

datatype 'v pyvalue = PStr string | PBool bool | PStrs "string list" | PObj "'v option"

text \<open>
  Modelled from the spec: the schema class \<^verbatim>\<open>prefect.serialization.storage.StorageSchema\<close>
  and its \<^verbatim>\<open>dump\<close> are not part of the source file. According to the spec the schema
  produces ``a mapping representation of the instance's attributes, tagged with a
  discriminator identifying the concrete backend type'', and doing so ``always succeeds
  for a well-formed instance''. The spec does not name the discriminator field;
  \<open>discriminator_key\<close> stands for it.
\<close>

definition discriminator_key :: string where
  "discriminator_key = ''type''"

definition StorageSchema_dump ::
  "'v storage_class \<Rightarrow> 'v storage \<Rightarrow> 'v error + (string \<times> 'v pyvalue) list" where
  "StorageSchema_dump c self =
     Inr [ (discriminator_key, PStr (cls_name c)),
           (''result'', PObj (result self)),
           (''secrets'', PStrs (secrets self)),
           (''stored_as_script'', PBool (stored_as_script self)),
           (''labels'', PStrs (u_labels self)),
           (''add_default_labels'', PBool (add_default_labels self)) ]"

text \<open>\<^verbatim>\<open>serialize\<close>: whatever the schema's \<^verbatim>\<open>dump\<close> returns or raises.\<close>

definition serialize ::
  "'v storage_class \<Rightarrow> 'v storage \<Rightarrow> 'v error + (string \<times> 'v pyvalue) list" where
  "serialize c self = StorageSchema_dump c self"

subsection \<open>Health checks\<close>

text \<open>\<^verbatim>\<open>d.values()\<close> of a dictionary.\<close>

definition dict_values :: "('k \<times> 'a) list \<Rightarrow> 'a list" where
  "dict_values d = map snd d"

text \<open>
  \<^verbatim>\<open>run_basic_healthchecks\<close>. The collaborator \<^verbatim>\<open>_healthcheck.result_check\<close> is a
  parameter: given the flows and the process state it returns or raises, and leaves a
  process state behind. It is handed the values of the dictionary and nothing else of
  the instance. The method returns its outcome, the instance and the process state
  after the call.
\<close>

definition run_basic_healthchecks ::
  "('v list \<Rightarrow> 'w world \<Rightarrow> ('v error + unit) \<times> 'w world) \<Rightarrow> 'v storage \<Rightarrow> 'w world
    \<Rightarrow> ('v error + unit) \<times> 'v storage \<times> 'w world" where
  "run_basic_healthchecks result_check self w =
     (case u_flows self of
        None \<Rightarrow> (Inr (), self, w)
      | Some flows \<Rightarrow>
          (case result_check (dict_values flows) w of
             (outcome, w') \<Rightarrow> (outcome, self, w')))"

subsection \<open>Example classes, instances and collaborators\<close>

text \<open>
  A process whose configuration enables default labels and whose sets iterate in reverse
  order of insertion; a second one that differs in both.
\<close>

definition world_rev :: "unit world" where
  "world_rev = \<lparr> config_add_default_labels = True, set_order = rev, external = () \<rparr>"

definition world_id :: "unit world" where
  "world_id = \<lparr> config_add_default_labels = False, set_order = (\<lambda>s. s), external = () \<rparr>"

text \<open>
  A subclass \<^verbatim>\<open>Backend\<close> that defines the three required methods and the default labels
  \<^verbatim>\<open>["b", "c"]\<close>, and one that leaves out \<^verbatim>\<open>add_flow\<close>.
\<close>

definition backend_class :: "string storage_class" where
  "backend_class =
     \<lparr> cls_name = ''Backend'',
       cls_default_labels = Some [''b'', ''c''],
       cls_name_property = None,
       cls_get_env_runner = None,
       cls_get_flow = None,
       cls_add_flow = Some (\<lambda>self flow. Inr (flow, self)),
       cls_contains = Some (\<lambda>self obj. False),
       cls_build = Some (\<lambda>self. Inr self) \<rparr>"

definition no_add_flow_class :: "string storage_class" where
  "no_add_flow_class = backend_class \<lparr> cls_name := ''Partial'', cls_add_flow := None \<rparr>"

text \<open>
  A concrete subclass that is itself called \<^verbatim>\<open>Storage\<close>, as a class of another module
  may be.
\<close>

definition namesake_class :: "string storage_class" where
  "namesake_class = backend_class \<lparr> cls_name := ''Storage'' \<rparr>"

text \<open>
  A process whose external state is the list of flows that the checker saw last; a
  checker that keeps that record and rejects the flow \<^verbatim>\<open>"bad"\<close>; an instance that tracks
  two flows.
\<close>

definition world_log :: "string list world" where
  "world_log = \<lparr> config_add_default_labels = True, set_order = rev, external = [] \<rparr>"

definition reject_bad ::
  "string list \<Rightarrow> string list world \<Rightarrow> (string error + unit) \<times> string list world" where
  "reject_bad flows w =
     (if ''bad'' \<in> set flows then Inl (Raised ''bad'') else Inr (), w \<lparr> external := flows \<rparr>)"

definition tracking_instance :: "string storage" where
  "tracking_instance =
     (init world_rev None None None None False)
       \<lparr> u_flows := Some [(''first'', ''good''), (''second'', ''bad'')] \<rparr>"

section \<open>Properties\<close>

subsection \<open>Python sets\<close>

lemma set_pyset_update: "set (pyset_update s xs) = set s \<union> set xs"
  unfolding pyset_update_def
  by (induction xs arbitrary: s) (auto simp: pyset_add_def)

lemma distinct_pyset_update: "distinct s \<Longrightarrow> distinct (pyset_update s xs)"
  unfolding pyset_update_def
  by (induction xs arbitrary: s) (auto simp: pyset_add_def)

lemma set_pyset: "set (pyset xs) = set xs"
  by (simp add: pyset_def set_pyset_update)

lemma distinct_pyset: "distinct (pyset xs)"
  by (simp add: pyset_def distinct_pyset_update)

lemma set_pylist: "iteration_ok (set_order w) \<Longrightarrow> set (pylist w s) = set s"
  unfolding iteration_ok_def pylist_def by (metis set_mset_mset)

lemma distinct_pylist:
  "iteration_ok (set_order w) \<Longrightarrow> distinct (pylist w s) \<longleftrightarrow> distinct s"
  unfolding iteration_ok_def pylist_def by (metis mset_eq_imp_distinct_iff)

lemma py_or_empty_Some: "py_or_empty (Some xs) = xs"
  by (cases xs) simp_all

subsection \<open>Label resolution\<close>

text \<open>
  Claim C1. When \<open>add_default_labels\<close> is true, \<open>labels\<close> holds exactly the strings of the
  explicit labels and of the default labels of the backend, each of them once, in an
  order that depends on the interpreter; when it is false, \<open>labels\<close> is the list of
  explicit labels itself. The explicit labels of an instance constructed with
  \<^verbatim>\<open>labels=L\<close> are \<open>L\<close>. A backend constructed with \<^verbatim>\<open>labels=["a","b"]\<close> and
  \<^verbatim>\<open>add_default_labels=True\<close>, whose class has the default labels \<^verbatim>\<open>["b","c"]\<close>, has the
  labels \<^verbatim>\<open>{"a","b","c"}\<close>.
\<close>

theorem labels_resolution:
  assumes "iteration_ok (set_order w)"
  shows "(add_default_labels self \<longrightarrow>
            set (labels w c self) = set (u_labels self) \<union> set (default_labels c self)
            \<and> distinct (labels w c self))
       \<and> (\<not> add_default_labels self \<longrightarrow> labels w c self = u_labels self)
       \<and> u_labels (init w0 r s (Some L) a sas) = L
       \<and> (cls_default_labels c = Some [''b'', ''c''] \<longrightarrow>
            set (labels w c (init w r s (Some [''a'', ''b'']) (Some True) sas))
              = {''a'', ''b'', ''c''})"
proof -
  have merged: "set (labels w c x) = set (u_labels x) \<union> set (default_labels c x)
      \<and> distinct (labels w c x)" if "add_default_labels x" for x :: "'b storage"
    using that assms
    by (simp add: labels_def Let_def set_pylist distinct_pylist set_pyset_update
        set_pyset distinct_pyset_update distinct_pyset)
  have plain: "labels w c self = u_labels self" if "\<not> add_default_labels self"
    using that by (simp add: labels_def)
  have stored: "u_labels (init w0 r s (Some L) a sas) = L"
    by (simp add: init_def py_or_empty_Some)
  have scenario: "set (labels w c (init w r s (Some [''a'', ''b'']) (Some True) sas))
      = {''a'', ''b'', ''c''}" if "cls_default_labels c = Some [''b'', ''c'']"
  proof -
    let ?self = "init w r s (Some [''a'', ''b'']) (Some True) sas :: 'b storage"
    have "add_default_labels ?self" by (simp add: init_def)
    then have "set (labels w c ?self) = set (u_labels ?self) \<union> set (default_labels c ?self)"
      using merged by blast
    also have "\<dots> = {''a'', ''b'', ''c''}"
      using that by (auto simp: init_def default_labels_def)
    finally show ?thesis .
  qed
  from merged plain stored scenario show ?thesis by blast
qed

text \<open>The scenario of the claim in a process that iterates sets in reverse order.\<close>

theorem labels_resolution_witness:
  "iteration_ok (set_order world_rev)
   \<and> set (labels world_rev backend_class
       (init world_rev None None (Some [''a'', ''b'']) (Some True) False)) = {''a'', ''b'', ''c''}
   \<and> labels world_rev backend_class
       (init world_rev None None (Some [''a'', ''b'']) (Some False) False) = [''a'', ''b'']"
proof -
  let ?off = "init world_rev None None (Some [''a'', ''b'']) (Some False) False :: string storage"
  have ok: "iteration_ok (set_order world_rev)"
    by (simp add: iteration_ok_def world_rev_def)
  have cls: "cls_default_labels backend_class = Some [''b'', ''c'']"
    by (simp add: backend_class_def)
  have off: "\<not> add_default_labels ?off"
    by (simp add: init_def)
  have merged: "set (labels world_rev backend_class
       (init world_rev None None (Some [''a'', ''b'']) (Some True) False)) = {''a'', ''b'', ''c''}"
    using labels_resolution [OF ok, where c = backend_class and r = None and s = None
        and sas = False] cls
    by blast
  have "labels world_rev backend_class ?off = u_labels ?off"
    using labels_resolution [OF ok, where c = backend_class and self = ?off] off
    by blast
  then have plain: "labels world_rev backend_class ?off = [''a'', ''b'']"
    by (simp add: init_def)
  from ok merged plain show ?thesis by blast
qed

text \<open>
  Claim C5, as amended. The labels are free of duplicates whenever
  \<open>add_default_labels\<close> is true. When it is false the explicit list is returned as it
  was given, so the labels are free of duplicates exactly when the explicit list is.
\<close>

theorem labels_distinct_iff:
  assumes "iteration_ok (set_order w)"
  shows "distinct (labels w c self) \<longleftrightarrow> add_default_labels self \<or> distinct (u_labels self)"
  using assms
  by (simp add: labels_def Let_def distinct_pylist distinct_pyset_update distinct_pyset)

text \<open>
  The explicit labels \<^verbatim>\<open>["a","a"]\<close> with and without default labels, and the explicit
  labels \<^verbatim>\<open>["a","b"]\<close> without them.
\<close>

theorem labels_distinct_iff_witness:
  "iteration_ok (set_order world_rev)
   \<and> distinct (labels world_rev backend_class
       (init world_rev None None (Some [''a'', ''a'']) (Some True) False))
   \<and> \<not> distinct (labels world_rev backend_class
       (init world_rev None None (Some [''a'', ''a'']) (Some False) False))
   \<and> distinct (labels world_rev backend_class
       (init world_rev None None (Some [''a'', ''b'']) (Some False) False))"
proof -
  let ?on = "init world_rev None None (Some [''a'', ''a'']) (Some True) False :: string storage"
  let ?off = "init world_rev None None (Some [''a'', ''a'']) (Some False) False :: string storage"
  let ?ab = "init world_rev None None (Some [''a'', ''b'']) (Some False) False :: string storage"
  have ok: "iteration_ok (set_order world_rev)"
    by (simp add: iteration_ok_def world_rev_def)
  have "add_default_labels ?on"
    by (simp add: init_def)
  then have merged: "distinct (labels world_rev backend_class ?on)"
    using labels_distinct_iff [OF ok, of backend_class ?on] by blast
  have "\<not> add_default_labels ?off" "\<not> distinct (u_labels ?off)"
    by (simp_all add: init_def)
  then have dup: "\<not> distinct (labels world_rev backend_class ?off)"
    using labels_distinct_iff [OF ok, of backend_class ?off] by blast
  have "distinct (u_labels ?ab)"
    by (simp add: init_def)
  then have plain: "distinct (labels world_rev backend_class ?ab)"
    using labels_distinct_iff [OF ok, of backend_class ?ab] by blast
  from ok merged dup plain show ?thesis by blast
qed

text \<open>
  Claim C5 as stated fails: constructed with \<^verbatim>\<open>labels=["a","a"]\<close> and
  \<^verbatim>\<open>add_default_labels=False\<close>, a backend has the labels \<^verbatim>\<open>["a","a"]\<close>.
\<close>

theorem labels_not_always_distinct:
  "\<not> distinct (labels world_rev backend_class
       (init world_rev None None (Some [''a'', ''a'']) (Some False) False))"
  by (simp add: labels_def init_def)

subsection \<open>Configuration\<close>

text \<open>
  Claim C3. An explicit \<^verbatim>\<open>add_default_labels\<close>, true or false, is stored as given, and the
  constructed instance is then the same whatever the process state is; only when the
  argument is \<^verbatim>\<open>None\<close> is the configured value stored. The labels are determined by
  \<^verbatim>\<open>_labels\<close>, \<^verbatim>\<open>add_default_labels\<close>, the default labels and the iteration order of the
  interpreter: two reads that agree on these return the same list, in particular two
  reads of one instance before and after a change of the configuration. The property
  returns a list and nothing else, since its body assigns to no attribute and to no
  global.
\<close>

theorem configuration_only_at_construction:
  "add_default_labels (init w r s l (Some b) sas) = b
   \<and> init w r s l (Some b) sas = init w' r s l (Some b) sas
   \<and> add_default_labels (init w r s l None sas) = config_add_default_labels w
   \<and> (u_labels self = u_labels self' \<and> add_default_labels self = add_default_labels self'
        \<and> default_labels c self = default_labels c' self' \<and> set_order w = set_order w'
        \<longrightarrow> labels w c self = labels w' c' self')
   \<and> labels (w \<lparr> config_add_default_labels := b' \<rparr>) c self = labels w c self"
  by (simp add: init_def labels_def pylist_def)

text \<open>
  Two instances that differ in their other attributes, read under different
  configurations.
\<close>

theorem configuration_only_at_construction_witness:
  "labels world_rev backend_class
     (init world_rev None None (Some [''a'', ''b'']) None False)
   = labels (world_rev \<lparr> config_add_default_labels := False \<rparr>) backend_class
     (init world_id (Some ''r'') (Some [''s'']) (Some [''a'', ''b'']) (Some True) True)"
proof -
  let ?self = "init world_rev None None (Some [''a'', ''b'']) None False :: string storage"
  let ?self' = "init world_id (Some ''r'') (Some [''s'']) (Some [''a'', ''b'']) (Some True) True
      :: string storage"
  let ?w' = "world_rev \<lparr> config_add_default_labels := False \<rparr>"
  have same: "u_labels ?self = u_labels ?self' \<and> add_default_labels ?self = add_default_labels ?self'
      \<and> default_labels backend_class ?self = default_labels backend_class ?self'
      \<and> set_order world_rev = set_order ?w'"
    by (simp add: init_def world_rev_def default_labels_def)
  with configuration_only_at_construction
    [where self = ?self and self' = ?self' and c = backend_class and c' = backend_class
      and w = world_rev and w' = ?w']
  show ?thesis by blast
qed

text \<open>
  Under any two iteration orders the labels of an instance are the same collection.
\<close>

lemma labels_same_collection:
  assumes "iteration_ok (set_order w)" and "iteration_ok (set_order w')"
  shows "mset (labels w c self) = mset (labels w' c self)"
  using assms by (simp add: labels_def Let_def pylist_def iteration_ok_def)

subsection \<open>Construction\<close>

text \<open>
  Claim C6. Constructed with \<^verbatim>\<open>secrets=None\<close> an instance has the secrets \<^verbatim>\<open>[]\<close>, and
  constructed with \<^verbatim>\<open>labels=None\<close> it has no explicit labels; a list that is given is
  stored as it is. Both attributes are lists in every constructed instance: their type
  has no null value.
\<close>

theorem null_normalization:
  "secrets (init w r None l a sas) = []
   \<and> u_labels (init w r s None a sas) = []
   \<and> secrets (init w r (Some xs) l a sas) = xs
   \<and> u_labels (init w r s (Some ys) a sas) = ys"
  by (simp add: init_def py_or_empty_Some)

text \<open>
  Claim C9. A subclass that leaves out \<^verbatim>\<open>add_flow\<close>, \<^verbatim>\<open>__contains__\<close> or \<^verbatim>\<open>build\<close> cannot be
  instantiated: calling it raises \<^verbatim>\<open>TypeError\<close> and yields no instance on which a method
  could be called later.
\<close>

theorem abstract_class_rejected:
  "cls_add_flow c = None \<or> cls_contains c = None \<or> cls_build c = None \<Longrightarrow>
     construct c w r s l a sas = Inl TypeError"
  by (auto simp: construct_def abstractmethods_def)

text \<open>A class that defines \<^verbatim>\<open>build\<close> and \<^verbatim>\<open>__contains__\<close> only.\<close>

theorem abstract_class_rejected_witness:
  "cls_add_flow no_add_flow_class = None
   \<and> cls_contains no_add_flow_class \<noteq> None \<and> cls_build no_add_flow_class \<noteq> None
   \<and> construct no_add_flow_class world_rev None None None None False = Inl TypeError"
proof -
  have missing: "cls_add_flow no_add_flow_class = None"
    by (simp add: no_add_flow_class_def)
  have present: "cls_contains no_add_flow_class \<noteq> None" "cls_build no_add_flow_class \<noteq> None"
    by (simp_all add: no_add_flow_class_def backend_class_def)
  from missing have "cls_add_flow no_add_flow_class = None
      \<or> cls_contains no_add_flow_class = None \<or> cls_build no_add_flow_class = None"
    by blast
  from abstract_class_rejected [OF this, of world_rev None None None None False]
    missing present
  show ?thesis by blast
qed

text \<open>A class that defines all three is instantiated by \<^verbatim>\<open>__init__\<close>.\<close>

lemma concrete_class_constructed:
  "cls_add_flow c \<noteq> None \<Longrightarrow> cls_contains c \<noteq> None \<Longrightarrow> cls_build c \<noteq> None \<Longrightarrow>
     construct c w r s l a sas = Inr (init w r s l a sas)"
  by (simp add: construct_def abstractmethods_def)

subsection \<open>Name and optional operations\<close>

text \<open>
  Claim C8, as amended. For a class that does not override \<^verbatim>\<open>name\<close>, the name of an
  instance is the identifier of its own class. It therefore equals the identifier of the
  base class exactly when the class is itself called that.
\<close>

theorem name_concrete_type:
  "cls_name_property c = None \<Longrightarrow>
     name c self = cls_name c \<and> (name c self = base_name \<longleftrightarrow> cls_name c = base_name)"
  by (simp add: name_def)

theorem name_concrete_type_witness:
  "cls_name_property backend_class = None
   \<and> name backend_class tracking_instance = ''Backend''
   \<and> name backend_class tracking_instance \<noteq> base_name"
proof -
  have none: "cls_name_property backend_class = None"
    by (simp add: backend_class_def)
  have called: "cls_name backend_class = ''Backend''"
    by (simp add: backend_class_def)
  then have other: "cls_name backend_class \<noteq> base_name"
    by (simp add: base_name_def)
  from name_concrete_type [OF none, of tracking_instance] none called other
  show ?thesis by simp
qed

text \<open>
  Claim C8 as stated fails: a subclass called \<^verbatim>\<open>Storage\<close> that defines the three required
  methods and no \<^verbatim>\<open>name\<close> can be instantiated, and the name of its instance is the
  identifier of the base class.
\<close>

theorem name_can_be_base_name:
  "cls_name_property namesake_class = None
   \<and> construct namesake_class world_rev None None None None False
       = Inr (init world_rev None None None None False)
   \<and> name namesake_class (init world_rev None None None None False) = base_name"
  by (simp add: namesake_class_def backend_class_def construct_def abstractmethods_def
      name_def base_name_def)

text \<open>
  Claim C4. For a class that does not override them, \<^verbatim>\<open>get_env_runner\<close> and \<^verbatim>\<open>get_flow\<close>
  raise \<^verbatim>\<open>NotImplementedError\<close> on every instance and for every flow location, so that
  calling again gives the same failure.
\<close>

theorem optional_operations_unsupported:
  "(cls_get_env_runner c = None \<longrightarrow>
      get_env_runner c self flow_location = Inl NotImplementedError)
   \<and> (cls_get_flow c = None \<longrightarrow> get_flow c self flow_location = Inl NotImplementedError)"
  by (simp add: get_env_runner_def get_flow_def)

theorem optional_operations_unsupported_witness:
  "cls_get_env_runner backend_class = None \<and> cls_get_flow backend_class = None
   \<and> get_env_runner backend_class tracking_instance ''first'' = Inl NotImplementedError
   \<and> get_flow backend_class tracking_instance ''first'' = Inl NotImplementedError"
proof -
  have none: "cls_get_env_runner backend_class = None" "cls_get_flow backend_class = None"
    by (simp_all add: backend_class_def)
  with optional_operations_unsupported [of backend_class tracking_instance "''first''"]
  show ?thesis by blast
qed

subsection \<open>Serialization\<close>

text \<open>
  Claim C7. On every instance \<^verbatim>\<open>serialize\<close> returns a mapping, and the mapping has the
  discriminator field, which holds the identifier of the class of the instance.
\<close>

theorem serialize_discriminator:
  "\<exists>m. serialize c self = Inr m \<and> map_of m discriminator_key = Some (PStr (cls_name c))"
  by (simp add: serialize_def StorageSchema_dump_def)

subsection \<open>Health checks\<close>

text \<open>
  Claim C2. On an instance without \<^verbatim>\<open>_flows\<close> the method returns normally and leaves
  the process state as it was, whatever that state and the checker are. On an instance
  with \<^verbatim>\<open>_flows\<close> the checker is run once, on the list of all values of the dictionary
  in their order, and the method ends as the checker did: it returns if the checker
  returned, and raises the exception of the checker if it raised.
\<close>

theorem healthcheck_gate:
  "(u_flows self = None \<longrightarrow> run_basic_healthchecks result_check self w = (Inr (), self, w))
   \<and> (\<forall>flows outcome w'.
         u_flows self = Some flows \<and> result_check (map snd flows) w = (outcome, w') \<longrightarrow>
         run_basic_healthchecks result_check self w = (outcome, self, w'))"
  by (simp add: run_basic_healthchecks_def dict_values_def)

text \<open>
  A fresh instance, on which the checker is not run, and an instance that tracks two
  flows, on which the checker sees both and rejects one.
\<close>

theorem healthcheck_gate_witness:
  "u_flows (init world_log None None None None False :: string storage) = None
   \<and> run_basic_healthchecks reject_bad (init world_log None None None None False) world_log
       = (Inr (), init world_log None None None None False, world_log)
   \<and> u_flows tracking_instance = Some [(''first'', ''good''), (''second'', ''bad'')]
   \<and> run_basic_healthchecks reject_bad tracking_instance world_log
       = (Inl (Raised ''bad''), tracking_instance,
          world_log \<lparr> external := [''good'', ''bad''] \<rparr>)"
proof -
  let ?fresh = "init world_log None None None None False :: string storage"
  have absent: "u_flows ?fresh = None"
    by (simp add: init_def)
  have present: "u_flows tracking_instance = Some [(''first'', ''good''), (''second'', ''bad'')]"
    by (simp add: tracking_instance_def)
  have checker: "reject_bad (map snd [(''first'', ''good''), (''second'', ''bad'')]) world_log
      = (Inl (Raised ''bad''), world_log \<lparr> external := [''good'', ''bad''] \<rparr>)"
    by (simp add: reject_bad_def)
  have noop: "run_basic_healthchecks reject_bad ?fresh world_log = (Inr (), ?fresh, world_log)"
    using healthcheck_gate [of ?fresh reject_bad world_log] absent by blast
  have fails: "run_basic_healthchecks reject_bad tracking_instance world_log
      = (Inl (Raised ''bad''), tracking_instance,
         world_log \<lparr> external := [''good'', ''bad''] \<rparr>)"
    using healthcheck_gate [of tracking_instance reject_bad world_log] present checker by blast
  from absent noop present fails show ?thesis by blast
qed

text \<open>
  Claim C10. Whether it returns or raises, \<^verbatim>\<open>run_basic_healthchecks\<close> leaves every
  attribute of the instance as it was.
\<close>

theorem healthcheck_frame:
  "fst (snd (run_basic_healthchecks result_check self w)) = self"
  by (simp add: run_basic_healthchecks_def split: option.splits prod.splits)

end
